theory Spec2Isabelle
  imports Main "HOL-Library.Sublist"
begin

section \<open>The inventory tables\<close>

text \<open>
  The \<^verbatim>\<open>Inventory\<close> model works on three tables of the SQLite schema: \<^verbatim>\<open>products\<close>,
  \<^verbatim>\<open>inventory_adjustments\<close> and \<^verbatim>\<open>low_stock_alerts\<close>. A table is the list of its rows in
  insertion order. Of a product row only the columns that the inventory statements name
  are kept. The column \<^verbatim>\<open>is_resolved\<close> (0 or 1) is a boolean, a nullable text column is an
  optional string.
\<close>

record product =
  prod_id :: string
  stock_quantity :: int
  stock_status :: string
  stock_low_threshold :: int
  reorder_level :: int
  updated_at :: string

record inventory_adjustment =
  adj_id :: string
  adj_product_id :: string
  adjustment_type :: string
  adj_quantity :: int
  adj_reason :: string
  adj_notes :: "string option"
  created_by :: "string option"
  adj_created_at :: string

record low_stock_alert =
  alert_id :: string
  alert_product_id :: string
  alert_type :: string
  current_quantity :: int
  threshold :: int
  is_resolved :: bool
  resolved_at :: "string option"
  alert_created_at :: string

record store =
  products :: "product list"
  inventory_adjustments :: "inventory_adjustment list"
  low_stock_alerts :: "low_stock_alert list"

section \<open>The database handle\<close>

text \<open>
  \<^verbatim>\<open>db\<close> is what the database module exports: \<^verbatim>\<open>new sqlite3.Database(dbPath)\<close> of the package
  \<^verbatim>\<open>sqlite3\<close>, the handle that the product, category and cart models use with callbacks. The
  inventory model calls it without callbacks, and on this handle
  \<^item> \<^verbatim>\<open>db.transaction\<close> is not defined: the call \<^verbatim>\<open>db.transaction(fn)\<close> throws a \<^verbatim>\<open>TypeError\<close>,
    and \<^verbatim>\<open>fn\<close> is never run;
  \<^item> \<^verbatim>\<open>db.prepare(sql).get(...)\<close> and \<^verbatim>\<open>db.prepare(sql).run(...)\<close> return the statement object
    itself. The statement is queued, and the driver executes it after the calling function
    has returned; the row of a \<^verbatim>\<open>SELECT\<close> goes to a callback, and these calls pass none. The
    statement object is truthy, and when the caller reads it, it has no property named
    after a column and no property \<^verbatim>\<open>changes\<close>.

  So the only statement of the inventory model that ever changes a table is the \<^verbatim>\<open>UPDATE\<close> of
  \<^verbatim>\<open>resolveAlert\<close>. A state of the program is the tables, the number of identifiers that
  \<^verbatim>\<open>uuidv4()\<close> has handed out (the values it returns are a parameter \<open>uuidv4\<close>, the \<open>k\<close>-th call
  returns \<open>uuidv4 k\<close>), and the statements that are queued.
\<close>

datatype statement = ResolveUpdate string

record world =
  db :: store
  uuid_calls :: nat
  pending :: "statement list"

text \<open>The argument object of \<^verbatim>\<open>createAdjustment\<close>.\<close>

record adjustment_data =
  productId :: string
  type :: string
  quantity :: int
  reason :: string
  notes' :: "string option"
  createdBy :: "string option"

text \<open>
  The exceptions: the \<^verbatim>\<open>throw new Error(`Invalid adjustment type: ...`)\<close> of
  \<^verbatim>\<open>createAdjustment\<close>, the \<^verbatim>\<open>TypeError\<close> of a call of something that is not a function, and the
  constraint error of an \<^verbatim>\<open>INSERT\<close> that repeats a primary key. The other \<^verbatim>\<open>throw\<close> statements
  of \<^verbatim>\<open>createAdjustment\<close> stand in the function passed to \<^verbatim>\<open>db.transaction\<close>, which is not run.
\<close>

datatype error =
    InvalidAdjustmentType string
  | TypeError string
  | StoreFailure string

text \<open>The call \<^verbatim>\<open>db.transaction(...)\<close>.\<close>

definition db_transaction :: "world \<Rightarrow> (error + 'a) \<times> world" where
  "db_transaction w = (Inl (TypeError ''db.transaction is not a function''), w)"

text \<open>
  Reading a property off the statement object that \<^verbatim>\<open>get\<close> or \<^verbatim>\<open>run\<close> has returned:
  \<^verbatim>\<open>undefined\<close>, here \<open>None\<close>. A comparison of a number with \<^verbatim>\<open>undefined\<close> is false.
\<close>

definition statement_property :: "string \<Rightarrow> int option" where
  "statement_property name = None"

text \<open>The statement object in a condition, as in \<^verbatim>\<open>if (!product)\<close>: an object is truthy.\<close>

definition statement_truthy :: bool where
  "statement_truthy = True"

section \<open>Helpers\<close>

text \<open>\<^verbatim>\<open>generateId(prefix)\<close>: the first dash-separated group of a fresh UUID, prefixed.\<close>

definition generateId :: "(nat \<Rightarrow> string) \<Rightarrow> string \<Rightarrow> world \<Rightarrow> string \<times> world" where
  "generateId uuidv4 pre w =
     (let uuid = takeWhile (\<lambda>c. c \<noteq> CHR ''-'') (uuidv4 (uuid_calls w));
          w' = w\<lparr>uuid_calls := Suc (uuid_calls w)\<rparr>
      in (if pre \<noteq> [] then pre @ ''_'' @ uuid else uuid, w'))"

text \<open>The \<^verbatim>\<open>INSERT\<close> into the alert table; \<^verbatim>\<open>id\<close> is its primary key.\<close>

definition insert_alert :: "low_stock_alert \<Rightarrow> store \<Rightarrow> error + store" where
  "insert_alert row st =
     (if alert_id row \<in> set (map alert_id (low_stock_alerts st))
      then Inl (StoreFailure ''UNIQUE constraint failed: low_stock_alerts.id'')
      else Inr (st\<lparr>low_stock_alerts := low_stock_alerts st @ [row]\<rparr>))"

text \<open>
  \<^verbatim>\<open>SELECT id FROM low_stock_alerts WHERE product_id = ? AND alert_type = ? AND is_resolved = 0\<close>
  with \<^verbatim>\<open>.get\<close>.
\<close>

definition existingAlert :: "string \<Rightarrow> string \<Rightarrow> store \<Rightarrow> low_stock_alert option" where
  "existingAlert pid ty st =
     find (\<lambda>a. alert_product_id a = pid \<and> alert_type a = ty \<and> \<not> is_resolved a)
       (low_stock_alerts st)"

section \<open>checkLowStockAlert\<close>

text \<open>
  The row that \<^verbatim>\<open>INSERT INTO low_stock_alerts (id, product_id, alert_type, current_quantity,
  threshold)\<close> creates: \<^verbatim>\<open>is_resolved\<close> defaults to 0, \<^verbatim>\<open>resolved_at\<close> to \<^verbatim>\<open>NULL\<close> and
  \<^verbatim>\<open>created_at\<close> to \<^verbatim>\<open>datetime('now')\<close>.
\<close>

definition new_alert ::
  "string \<Rightarrow> string \<Rightarrow> string \<Rightarrow> int \<Rightarrow> int \<Rightarrow> string \<Rightarrow> low_stock_alert" where
  "new_alert alertId pid ty qty thr now =
     \<lparr>alert_id = alertId, alert_product_id = pid, alert_type = ty,
      current_quantity = qty, threshold = thr, is_resolved = False,
      resolved_at = None, alert_created_at = now\<rparr>"

text \<open>
  The two blocks of \<^verbatim>\<open>checkLowStockAlert\<close> differ in the alert type and the threshold
  only; \<open>checkAlert\<close> is one block, for a threshold that is a number and with the rows as the
  statements select them. It returns the entries pushed on \<^verbatim>\<open>alerts\<close> (type and id).
\<close>

definition checkAlert ::
  "(nat \<Rightarrow> string) \<Rightarrow> string \<Rightarrow> string \<Rightarrow> string \<Rightarrow> int \<Rightarrow> int \<Rightarrow> world
     \<Rightarrow> (error + (string \<times> string) list) \<times> world" where
  "checkAlert uuidv4 now pid ty qty thr w =
     (if qty \<le> thr then
        (case existingAlert pid ty (db w) of
           Some a \<Rightarrow> (Inr [], w)
         | None \<Rightarrow>
             (let (alertId, w1) = generateId uuidv4 ''alert'' w
              in case insert_alert (new_alert alertId pid ty qty thr now) (db w1) of
                   Inl e \<Rightarrow> (Inl e, w1)
                 | Inr st \<Rightarrow> (Inr [(ty, alertId)], w1\<lparr>db := st\<rparr>)))
      else (Inr [], w))"

text \<open>
  \<^verbatim>\<open>checkLowStockAlert\<close> on the handle: \<^verbatim>\<open>product\<close> is the statement object. It is truthy, so the
  bare \<^verbatim>\<open>return\<close> (the result \<open>None\<close>) is not taken. Its \<^verbatim>\<open>stock_low_threshold\<close> and
  \<^verbatim>\<open>reorder_level\<close> are \<^verbatim>\<open>undefined\<close>, so \<^verbatim>\<open>quantity <= product.stock_low_threshold\<close> and
  \<^verbatim>\<open>quantity <= product.reorder_level\<close> are false and neither block is entered. The
  \<^verbatim>\<open>SELECT\<close> that is queued changes nothing.
\<close>

definition checkLowStockAlert ::
  "(nat \<Rightarrow> string) \<Rightarrow> string \<Rightarrow> string \<Rightarrow> int \<Rightarrow> world
     \<Rightarrow> (error + (string \<times> string) list option) \<times> world" where
  "checkLowStockAlert uuidv4 now pid qty w =
     (if \<not> statement_truthy then (Inr None, w)
      else
        (case (case statement_property ''stock_low_threshold'' of
                 None \<Rightarrow> (Inr [], w)
               | Some thr \<Rightarrow> checkAlert uuidv4 now pid ''low_stock'' qty thr w) of
           (Inl e, w1) \<Rightarrow> (Inl e, w1)
         | (Inr alerts1, w1) \<Rightarrow>
             (case (case statement_property ''reorder_level'' of
                      None \<Rightarrow> (Inr [], w1)
                    | Some thr \<Rightarrow> checkAlert uuidv4 now pid ''reorder'' qty thr w1) of
                (Inl e, w2) \<Rightarrow> (Inl e, w2)
              | (Inr alerts2, w2) \<Rightarrow> (Inr (Some (alerts1 @ alerts2)), w2))))"

section \<open>createAdjustment\<close>

definition validTypes :: "string list" where
  "validTypes = [''purchase'', ''sale'', ''return'', ''damage'', ''theft'', ''adjustment'',
                 ''transfer'']"

text \<open>
  The type is validated first. Then \<^verbatim>\<open>const transaction = db.transaction(() => {...})\<close> throws:
  the function that reads the product, computes the new quantity, updates the product,
  inserts the ledger row and calls \<^verbatim>\<open>checkLowStockAlert\<close> is never run. \<open>now\<close> is the text
  that \<^verbatim>\<open>datetime('now')\<close> would have in the statements of the call.
\<close>

definition createAdjustment ::
  "(nat \<Rightarrow> string) \<Rightarrow> string \<Rightarrow> adjustment_data \<Rightarrow> world \<Rightarrow> (error + string) \<times> world" where
  "createAdjustment uuidv4 now data w =
     (if type data \<notin> set validTypes then (Inl (InvalidAdjustmentType (type data)), w)
      else db_transaction w)"

section \<open>bulkAdjustments\<close>

record bulk_result =
  res_productId :: string
  success :: bool
  adjustmentId :: "string option"
  error_message :: "string option"

text \<open>
  \<^verbatim>\<open>const results = []\<close>, then \<^verbatim>\<open>const transaction = db.transaction(() => {...})\<close> throws: the
  loop over the entries is never run and \<^verbatim>\<open>return results\<close> is not reached.
\<close>

definition bulkAdjustments ::
  "(nat \<Rightarrow> string) \<Rightarrow> string \<Rightarrow> adjustment_data list \<Rightarrow> world
     \<Rightarrow> (error + bulk_result list) \<times> world" where
  "bulkAdjustments uuidv4 now adjustments w = db_transaction w"

section \<open>resolveAlert\<close>

text \<open>
  \<^verbatim>\<open>db.prepare(`UPDATE low_stock_alerts SET is_resolved = 1, resolved_at = datetime('now')
  WHERE id = ?`).run(alertId)\<close> queues the statement and returns the statement object;
  \<^verbatim>\<open>result.changes\<close> is \<^verbatim>\<open>undefined\<close>, and \<^verbatim>\<open>undefined > 0\<close> is false.
\<close>

definition resolveAlert :: "string \<Rightarrow> world \<Rightarrow> bool \<times> world" where
  "resolveAlert alertId w =
     (let w' = w\<lparr>pending := pending w @ [ResolveUpdate alertId]\<rparr>
      in (case statement_property ''changes'' of None \<Rightarrow> False | Some changes \<Rightarrow> 0 < changes,
          w'))"

text \<open>
  The driver executing a queued statement; \<open>now\<close> is what \<^verbatim>\<open>datetime('now')\<close> evaluates to
  at that moment. \<open>run_pending\<close> executes all that is queued, in order.
\<close>

fun run_statement :: "string \<Rightarrow> statement \<Rightarrow> store \<Rightarrow> store" where
  "run_statement now (ResolveUpdate alertId) st =
     st\<lparr>low_stock_alerts :=
          map (\<lambda>a. if alert_id a = alertId
                    then a\<lparr>is_resolved := True, resolved_at := Some now\<rparr>
                    else a) (low_stock_alerts st)\<rparr>"

fun run_all :: "string \<Rightarrow> statement list \<Rightarrow> store \<Rightarrow> store" where
  "run_all now [] st = st"
| "run_all now (s # ss) st = run_all now ss (run_statement now s st)"

definition run_pending :: "string \<Rightarrow> world \<Rightarrow> world" where
  "run_pending now w = w\<lparr>db := run_all now (pending w) (db w), pending := []\<rparr>"

section \<open>Sequences of inventory operations\<close>

text \<open>
  The first four operations are a call of the inventory model followed by the driver
  executing what is queued; the time such an operation carries is the time of that
  execution. \<open>ResolveAlertCall\<close> is the bare call of \<^verbatim>\<open>resolveAlert\<close>, whose \<^verbatim>\<open>UPDATE\<close> stays
  queued, and \<open>RunQueued\<close> is the driver executing the queue at its time: with them a call
  can come before the \<^verbatim>\<open>UPDATE\<close> of an earlier call has been executed.
\<close>

datatype op =
    CreateAdjustment string adjustment_data
  | BulkAdjustments string "adjustment_data list"
  | CheckLowStockAlert string string int
  | ResolveAlert string string
  | ResolveAlertCall string
  | RunQueued string

fun exec_op :: "(nat \<Rightarrow> string) \<Rightarrow> op \<Rightarrow> world \<Rightarrow> world" where
  "exec_op uuidv4 (CreateAdjustment now data) w =
     run_pending now (snd (createAdjustment uuidv4 now data w))"
| "exec_op uuidv4 (BulkAdjustments now adjustments) w =
     run_pending now (snd (bulkAdjustments uuidv4 now adjustments w))"
| "exec_op uuidv4 (CheckLowStockAlert now pid qty) w =
     run_pending now (snd (checkLowStockAlert uuidv4 now pid qty w))"
| "exec_op uuidv4 (ResolveAlert now alertId) w = run_pending now (snd (resolveAlert alertId w))"
| "exec_op uuidv4 (ResolveAlertCall alertId) w = snd (resolveAlert alertId w)"
| "exec_op uuidv4 (RunQueued now) w = run_pending now w"

fun exec_ops :: "(nat \<Rightarrow> string) \<Rightarrow> op list \<Rightarrow> world \<Rightarrow> world" where
  "exec_ops uuidv4 [] w = w"
| "exec_ops uuidv4 (x # xs) w = exec_ops uuidv4 xs (exec_op uuidv4 x w)"

section \<open>Predicates of the specification\<close>

text \<open>The unresolved alerts of one product and one alert type.\<close>

definition open_alerts :: "string \<Rightarrow> string \<Rightarrow> store \<Rightarrow> low_stock_alert list" where
  "open_alerts pid ty st =
     filter (\<lambda>a. alert_product_id a = pid \<and> alert_type a = ty \<and> \<not> is_resolved a)
       (low_stock_alerts st)"

section \<open>A sample store\<close>

text \<open>The product of the specification's scenarios: quantity 25, threshold 20, reorder level 10.\<close>

definition demo_uuidv4 :: "nat \<Rightarrow> string" where
  "demo_uuidv4 k = replicate (Suc k) CHR ''a'' @ ''-0000-4000-8000-000000000000''"

definition demo_product :: product where
  "demo_product = \<lparr>prod_id = ''prod_1'', stock_quantity = 25, stock_status = ''in_stock'',
     stock_low_threshold = 20, reorder_level = 10, updated_at = ''2024-01-01 00:00:00''\<rparr>"

definition demo_world :: world where
  "demo_world = \<lparr>db = \<lparr>products = [demo_product], inventory_adjustments = [],
     low_stock_alerts = []\<rparr>, uuid_calls = 0, pending = []\<rparr>"

definition demo_adjustment :: "string \<Rightarrow> int \<Rightarrow> adjustment_data" where
  "demo_adjustment ty n = \<lparr>productId = ''prod_1'', type = ty, quantity = n,
     reason = ''stock count'', notes' = None, createdBy = Some ''admin''\<rparr>"

text \<open>The sample store with one open \<^verbatim>\<open>low_stock\<close> alert.\<close>

definition alerted_world :: world where
  "alerted_world = demo_world\<lparr>db := (db demo_world)\<lparr>low_stock_alerts :=
     [new_alert ''alert_1'' ''prod_1'' ''low_stock'' 15 20 ''2024-01-02 00:00:00'']\<rparr>\<rparr>"

lemmas demo_defs = demo_uuidv4_def demo_product_def demo_world_def demo_adjustment_def
  alerted_world_def

section \<open>Basic facts\<close>

subsection \<open>What the calls return\<close>

lemma createAdjustment_valid:
  "type data \<in> set validTypes \<Longrightarrow>
   createAdjustment uuidv4 now data w = (Inl (TypeError ''db.transaction is not a function''), w)"
  by (simp add: createAdjustment_def db_transaction_def)

lemma createAdjustment_world: "snd (createAdjustment uuidv4 now data w) = w"
  by (simp add: createAdjustment_def db_transaction_def)


lemma bulkAdjustments_world: "snd (bulkAdjustments uuidv4 now adjustments w) = w"
  by (simp add: bulkAdjustments_def db_transaction_def)

lemma checkLowStockAlert_nothing:
  "checkLowStockAlert uuidv4 now pid qty w = (Inr (Some []), w)"
  by (simp add: checkLowStockAlert_def statement_property_def statement_truthy_def)

lemma resolveAlert_queues:
  "resolveAlert alertId w = (False, w\<lparr>pending := pending w @ [ResolveUpdate alertId]\<rparr>)"
  by (simp add: resolveAlert_def statement_property_def)

subsection \<open>What a queued statement changes\<close>

lemma run_statement_frame:
  "products (run_statement now s st) = products st \<and>
   inventory_adjustments (run_statement now s st) = inventory_adjustments st"
  by (cases s) simp

lemma run_all_frame:
  "products (run_all now ss st) = products st \<and>
   inventory_adjustments (run_all now ss st) = inventory_adjustments st"
  by (induction ss arbitrary: st) (simp_all add: run_statement_frame)

lemma run_all_append: "run_all now (ss @ ts) st = run_all now ts (run_all now ss st)"
  by (induction ss arbitrary: st) simp_all

lemma run_statement_open:
  "length (open_alerts pid ty (run_statement now s st)) \<le> length (open_alerts pid ty st)"
proof (cases s)
  case (ResolveUpdate alertId)
  have "length (filter (\<lambda>a. alert_product_id a = pid \<and> alert_type a = ty \<and> \<not> is_resolved a)
          (map (\<lambda>a. if alert_id a = alertId
                    then a\<lparr>is_resolved := True, resolved_at := Some now\<rparr> else a) xs))
      \<le> length (filter (\<lambda>a. alert_product_id a = pid \<and> alert_type a = ty \<and> \<not> is_resolved a) xs)"
    for xs
    by (induction xs) auto
  with ResolveUpdate show ?thesis by (simp add: open_alerts_def)
qed

lemma run_all_open:
  "length (open_alerts pid ty (run_all now ss st)) \<le> length (open_alerts pid ty st)"
proof (induction ss arbitrary: st)
  case Nil
  show ?case by simp
next
  case (Cons s ss)
  from Cons.IH [of "run_statement now s st"] run_statement_open [of pid ty now s st]
  show ?case by simp
qed

lemma run_statement_missing:
  assumes "alertId \<notin> set (map alert_id (low_stock_alerts st))"
  shows "run_statement now (ResolveUpdate alertId) st = st"
proof -
  from assms have "map (\<lambda>a. if alert_id a = alertId
      then a\<lparr>is_resolved := True, resolved_at := Some now\<rparr> else a) (low_stock_alerts st)
      = low_stock_alerts st"
    by (intro map_idI) auto
  then show ?thesis by simp
qed

lemma run_statement_resolved:
  assumes "\<forall>a \<in> set (low_stock_alerts st). alert_id a = alertId \<longrightarrow> is_resolved a"
  shows "low_stock_alerts (run_statement now (ResolveUpdate alertId) st) =
           map (\<lambda>a. if alert_id a = alertId then a\<lparr>resolved_at := Some now\<rparr> else a)
             (low_stock_alerts st)"
  using assms by (auto intro!: map_cong [OF refl])

subsection \<open>The operations of a sequence\<close>

lemma run_pending_frame:
  "products (db (run_pending now w)) = products (db w) \<and>
   inventory_adjustments (db (run_pending now w)) = inventory_adjustments (db w)"
  by (simp add: run_pending_def run_all_frame)

lemma run_pending_open:
  "length (open_alerts pid ty (db (run_pending now w))) \<le> length (open_alerts pid ty (db w))"
  by (simp add: run_pending_def run_all_open)

lemma resolveAlert_db: "db (snd (resolveAlert alertId w)) = db w"
  by (simp add: resolveAlert_queues)

lemma exec_op_frame:
  "products (db (exec_op uuidv4 x w)) = products (db w) \<and>
   inventory_adjustments (db (exec_op uuidv4 x w)) = inventory_adjustments (db w)"
  by (cases x)
     (simp_all add: run_pending_frame createAdjustment_world bulkAdjustments_world
        checkLowStockAlert_nothing resolveAlert_db)


lemma exec_op_open:
  "length (open_alerts pid ty (db (exec_op uuidv4 x w))) \<le> length (open_alerts pid ty (db w))"
proof (cases x)
  case (ResolveAlert now alertId)
  from run_pending_open [of pid ty now "snd (resolveAlert alertId w)"] ResolveAlert
  show ?thesis by (simp add: resolveAlert_db)
qed (simp_all add: run_pending_open createAdjustment_world bulkAdjustments_world
       checkLowStockAlert_nothing resolveAlert_db)

lemma exec_ops_open:
  "length (open_alerts pid ty (db (exec_ops uuidv4 ops w))) \<le> length (open_alerts pid ty (db w))"
proof (induction ops arbitrary: w)
  case Nil
  show ?case by simp
next
  case (Cons x xs)
  from Cons.IH [of "exec_op uuidv4 x w"] exec_op_open [of pid ty uuidv4 x w]
  show ?case by simp
qed

subsection \<open>A block with an open alert\<close>

lemma existingAlert_None: "existingAlert pid ty st = None \<longleftrightarrow> open_alerts pid ty st = []"
  by (auto simp: existingAlert_def open_alerts_def find_None_iff filter_empty_conv)

lemma checkAlert_open:
  "open_alerts pid ty (db w) \<noteq> [] \<Longrightarrow> checkAlert uuidv4 now pid ty qty thr w = (Inr [], w)"
  by (auto simp: checkAlert_def existingAlert_None [symmetric] split: option.splits)

section \<open>The claims\<close>

text \<open>
  Claim C8. A call of \<^verbatim>\<open>createAdjustment\<close> whose type is not one of the seven recognised
  kinds fails with the invalid-type error, and nothing is persisted: the state after the
  call, with its product rows, its ledger and its alerts, is the state before it.
\<close>

theorem invalid_type_rejected:
  assumes "type data \<notin> set validTypes"
  shows "createAdjustment uuidv4 now data w = (Inl (InvalidAdjustmentType (type data)), w)"
  using assms by (simp add: createAdjustment_def)

theorem invalid_type_rejected_witness:
  "type (demo_adjustment ''refund'' 3) \<notin> set validTypes \<and>
   createAdjustment demo_uuidv4 ''2024-01-02 00:00:00'' (demo_adjustment ''refund'' 3) demo_world
     = (Inl (InvalidAdjustmentType ''refund''), demo_world)"
proof -
  have h: "type (demo_adjustment ''refund'' 3) \<notin> set validTypes"
    by (simp add: demo_adjustment_def validTypes_def)
  from invalid_type_rejected [OF h] h show ?thesis
    by (simp add: demo_adjustment_def)
qed

text \<open>
  Claim C5. If no product has more than one unresolved alert of one type (as in a store with
  no alerts), then this remains so after every sequence of inventory operations. The block of
  \<^verbatim>\<open>checkLowStockAlert\<close> that handles one alert type does nothing while the product has an
  unresolved alert of that type.
\<close>

theorem at_most_one_open_alert:
  assumes "\<forall>pid ty. length (open_alerts pid ty (db w)) \<le> 1"
  shows "length (open_alerts pid ty (db (exec_ops uuidv4 ops w))) \<le> 1 \<and>
         (open_alerts pid ty (db w) \<noteq> [] \<longrightarrow>
            checkAlert uuidv4 now pid ty qty thr w = (Inr [], w))"
proof
  from assms have "length (open_alerts pid ty (db w)) \<le> 1" by blast
  with exec_ops_open [of pid ty uuidv4 ops w]
  show "length (open_alerts pid ty (db (exec_ops uuidv4 ops w))) \<le> 1" by simp
  show "open_alerts pid ty (db w) \<noteq> [] \<longrightarrow>
            checkAlert uuidv4 now pid ty qty thr w = (Inr [], w)"
    by (simp add: checkAlert_open)
qed

theorem at_most_one_open_alert_witness:
  "length (open_alerts ''prod_1'' ''low_stock'' (db (exec_ops demo_uuidv4
      [CreateAdjustment ''2024-01-03 00:00:00'' (demo_adjustment ''sale'' 5),
       ResolveAlert ''2024-01-04 00:00:00'' ''alert_1'',
       BulkAdjustments ''2024-01-05 00:00:00''
         [demo_adjustment ''sale'' 5, demo_adjustment ''sale'' 5]] alerted_world))) \<le> 1 \<and>
   open_alerts ''prod_1'' ''low_stock'' (db alerted_world) \<noteq> [] \<and>
   checkAlert demo_uuidv4 ''2024-01-03 00:00:00'' ''prod_1'' ''low_stock'' 15 20 alerted_world
     = (Inr [], alerted_world)"
proof -
  have one: "open_alerts pid ty (db alerted_world) =
      (if pid = ''prod_1'' \<and> ty = ''low_stock''
       then [new_alert ''alert_1'' ''prod_1'' ''low_stock'' 15 20 ''2024-01-02 00:00:00'']
       else [])" for pid ty
    by (auto simp: open_alerts_def alerted_world_def new_alert_def)
  then have inv: "\<forall>pid ty. length (open_alerts pid ty (db alerted_world)) \<le> 1" by simp
  from one have ne: "open_alerts ''prod_1'' ''low_stock'' (db alerted_world) \<noteq> []" by simp
  from at_most_one_open_alert [OF inv, of "''prod_1''" "''low_stock''"] ne
  show ?thesis by blast
qed

text \<open>
  Claim C2 asks that a \<^verbatim>\<open>sale\<close>, \<^verbatim>\<open>damage\<close>, \<^verbatim>\<open>theft\<close> or negative \<^verbatim>\<open>transfer\<close> of more than the
  stock fails with the insufficient-stock error and leaves the state as it was. On the
  handle the call fails at \<^verbatim>\<open>db.transaction\<close>, before the product is read: the state is as it
  was, but the error is the \<^verbatim>\<open>TypeError\<close>. A sale of 999 from 25 pieces:
\<close>

theorem oversized_sale_throws_TypeError:
  "createAdjustment demo_uuidv4 ''2024-01-02 00:00:00'' (demo_adjustment ''sale'' 999) demo_world
     = (Inl (TypeError ''db.transaction is not a function''), demo_world) \<and>
   products (db (exec_op demo_uuidv4
      (CreateAdjustment ''2024-01-02 00:00:00'' (demo_adjustment ''sale'' 999)) demo_world))
     = [demo_product]"
  by (simp add: createAdjustment_def db_transaction_def validTypes_def run_pending_def
        demo_adjustment_def demo_world_def)

text \<open>
  Claim C3 asks that a successful call persists the quantity that belongs to its type, and
  that an \<^verbatim>\<open>adjustment\<close> with quantity 0 sets the quantity to 0 and the status to
  \<^verbatim>\<open>out_of_stock\<close>. On the handle an \<^verbatim>\<open>adjustment\<close> with quantity 0 fails at \<^verbatim>\<open>db.transaction\<close>
  and the product keeps its 25 pieces and its status \<^verbatim>\<open>in_stock\<close>:
\<close>

theorem adjustment_to_zero_throws_TypeError:
  "createAdjustment demo_uuidv4 ''2024-01-02 00:00:00'' (demo_adjustment ''adjustment'' 0)
      demo_world
     = (Inl (TypeError ''db.transaction is not a function''), demo_world) \<and>
   map stock_quantity (products (db (exec_op demo_uuidv4
      (CreateAdjustment ''2024-01-02 00:00:00'' (demo_adjustment ''adjustment'' 0)) demo_world)))
     = [25] \<and>
   map stock_status (products (db (exec_op demo_uuidv4
      (CreateAdjustment ''2024-01-02 00:00:00'' (demo_adjustment ''adjustment'' 0)) demo_world)))
     = [''in_stock'']"
  by (simp add: createAdjustment_def db_transaction_def validTypes_def run_pending_def
        demo_adjustment_def demo_world_def demo_product_def)

text \<open>
  Claim C6 asks that \<^verbatim>\<open>checkLowStockAlert(productId, newQuantity)\<close> inserts one \<^verbatim>\<open>low_stock\<close>
  alert iff the quantity is at most the product's threshold and no such alert is open, and
  one \<^verbatim>\<open>reorder\<close> alert likewise. On the handle it reads the thresholds off the statement
  object and inserts nothing: for the sample product (threshold 20, no alert) and quantity
  15 it returns the empty list and the alert table stays empty.
\<close>

theorem low_quantity_raises_no_alert:
  "checkLowStockAlert demo_uuidv4 ''2024-01-02 00:00:00'' ''prod_1'' 15 demo_world
     = (Inr (Some []), demo_world) \<and>
   low_stock_alerts (db (exec_op demo_uuidv4
      (CheckLowStockAlert ''2024-01-02 00:00:00'' ''prod_1'' 15) demo_world)) = []"
  by (simp add: checkLowStockAlert_def statement_property_def statement_truthy_def
        run_pending_def demo_world_def)

text \<open>
  Claim C7 asks that \<^verbatim>\<open>bulkAdjustments\<close> applies \<^verbatim>\<open>createAdjustment\<close> to each entry on its own
  and returns one result per entry. On the handle it fails at its \<^verbatim>\<open>db.transaction\<close>, before
  the loop, and returns no list: three entries of which the second has a bad type.
\<close>

theorem bulk_throws_TypeError:
  "bulkAdjustments demo_uuidv4 ''2024-01-02 00:00:00''
      [demo_adjustment ''sale'' 10, demo_adjustment ''refund'' 1, demo_adjustment ''sale'' 10]
      demo_world
     = (Inl (TypeError ''db.transaction is not a function''), demo_world)"
  by (simp add: bulkAdjustments_def db_transaction_def)

text \<open>
  Claim C10 asks that an \<^verbatim>\<open>adjustment\<close> with a negative quantity succeeds and persists the
  negative quantity. On the handle the call fails at \<^verbatim>\<open>db.transaction\<close> and the product
  keeps its 25 pieces: an \<^verbatim>\<open>adjustment\<close> with quantity -3.
\<close>

theorem negative_adjustment_throws_TypeError:
  "createAdjustment demo_uuidv4 ''2024-01-02 00:00:00'' (demo_adjustment ''adjustment'' (- 3))
      demo_world
     = (Inl (TypeError ''db.transaction is not a function''), demo_world) \<and>
   map stock_quantity (products (db (exec_op demo_uuidv4
      (CreateAdjustment ''2024-01-02 00:00:00'' (demo_adjustment ''adjustment'' (- 3)))
      demo_world))) = [25]"
  by (simp add: createAdjustment_def db_transaction_def validTypes_def run_pending_def
        demo_adjustment_def demo_world_def demo_product_def)

text \<open>
  Claim C4, as the code has it. With nothing queued: \<^verbatim>\<open>resolveAlert\<close> returns false rather
  than throwing when no alert has the id, and its \<^verbatim>\<open>UPDATE\<close> then changes nothing. For an
  alert that is already resolved it returns false as well, but the call is not without
  effect: when its \<^verbatim>\<open>UPDATE\<close> is executed, the \<^verbatim>\<open>resolved_at\<close> of the alert becomes the time of
  that execution, and nothing else changes. At its return the tables are as they were.
\<close>

theorem resolveAlert_second_time:
  assumes "pending w = []"
  shows "(alertId \<notin> set (map alert_id (low_stock_alerts (db w))) \<longrightarrow>
            fst (resolveAlert alertId w) = False \<and>
            db (exec_op uuidv4 (ResolveAlert now alertId) w) = db w) \<and>
         (alertId \<in> set (map alert_id (low_stock_alerts (db w))) \<and>
          (\<forall>a \<in> set (low_stock_alerts (db w)). alert_id a = alertId \<longrightarrow> is_resolved a) \<longrightarrow>
            fst (resolveAlert alertId w) = False \<and>
            low_stock_alerts (db (exec_op uuidv4 (ResolveAlert now alertId) w)) =
              map (\<lambda>a. if alert_id a = alertId then a\<lparr>resolved_at := Some now\<rparr> else a)
                (low_stock_alerts (db w)) \<and>
            products (db (exec_op uuidv4 (ResolveAlert now alertId) w)) = products (db w) \<and>
            inventory_adjustments (db (exec_op uuidv4 (ResolveAlert now alertId) w))
              = inventory_adjustments (db w)) \<and>
         db (snd (resolveAlert alertId w)) = db w"
proof -
  have call: "resolveAlert alertId w = (False, w\<lparr>pending := [ResolveUpdate alertId]\<rparr>)"
    using assms by (simp add: resolveAlert_queues)
  then have after: "db (exec_op uuidv4 (ResolveAlert now alertId) w)
      = run_statement now (ResolveUpdate alertId) (db w)"
    by (simp add: run_pending_def)
  have frame: "products (db (exec_op uuidv4 (ResolveAlert now alertId) w)) = products (db w)"
    "inventory_adjustments (db (exec_op uuidv4 (ResolveAlert now alertId) w))
       = inventory_adjustments (db w)"
    by (simp_all only: exec_op_frame)
  show ?thesis
  proof (intro conjI impI)
    assume "alertId \<notin> set (map alert_id (low_stock_alerts (db w)))"
    from run_statement_missing [OF this] after
    show "db (exec_op uuidv4 (ResolveAlert now alertId) w) = db w" by simp
  next
    assume a: "alertId \<in> set (map alert_id (low_stock_alerts (db w))) \<and>
          (\<forall>a \<in> set (low_stock_alerts (db w)). alert_id a = alertId \<longrightarrow> is_resolved a)"
    then have "\<forall>a \<in> set (low_stock_alerts (db w)). alert_id a = alertId \<longrightarrow> is_resolved a"
      by (rule conjunct2)
    from run_statement_resolved [OF this] after
    show "low_stock_alerts (db (exec_op uuidv4 (ResolveAlert now alertId) w)) =
              map (\<lambda>a. if alert_id a = alertId then a\<lparr>resolved_at := Some now\<rparr> else a)
                (low_stock_alerts (db w))"
      by simp
  qed (simp_all add: call frame del: exec_op.simps)
qed

theorem resolveAlert_second_time_witness:
  "\<not> fst (resolveAlert ''alert_9'' alerted_world) \<and>
   db (exec_op demo_uuidv4 (ResolveAlert ''2024-01-03 00:00:00'' ''alert_9'') alerted_world)
     = db alerted_world \<and>
   \<not> fst (resolveAlert ''alert_1''
        (exec_op demo_uuidv4 (ResolveAlert ''2024-01-03 00:00:00'' ''alert_1'') alerted_world)) \<and>
   low_stock_alerts (db (exec_op demo_uuidv4 (ResolveAlert ''2024-01-04 00:00:00'' ''alert_1'')
        (exec_op demo_uuidv4 (ResolveAlert ''2024-01-03 00:00:00'' ''alert_1'') alerted_world)))
     = [(new_alert ''alert_1'' ''prod_1'' ''low_stock'' 15 20 ''2024-01-02 00:00:00'')
          \<lparr>is_resolved := True, resolved_at := Some ''2024-01-04 00:00:00''\<rparr>]"
proof -
  let ?w1 = "exec_op demo_uuidv4 (ResolveAlert ''2024-01-03 00:00:00'' ''alert_1'') alerted_world"
  have p0: "pending alerted_world = []" by (simp add: demo_defs)
  have p1: "pending ?w1 = []" by (simp add: run_pending_def)
  have ids0: "low_stock_alerts (db alerted_world)
      = [new_alert ''alert_1'' ''prod_1'' ''low_stock'' 15 20 ''2024-01-02 00:00:00'']"
    by (simp add: demo_defs)
  have ids1: "low_stock_alerts (db ?w1)
      = [(new_alert ''alert_1'' ''prod_1'' ''low_stock'' 15 20 ''2024-01-02 00:00:00'')
          \<lparr>is_resolved := True, resolved_at := Some ''2024-01-03 00:00:00''\<rparr>]"
    by (simp add: resolveAlert_queues run_pending_def demo_defs new_alert_def)
  from resolveAlert_second_time [OF p0, of "''alert_9''" demo_uuidv4 "''2024-01-03 00:00:00''"]
    ids0
  have one: "\<not> fst (resolveAlert ''alert_9'' alerted_world) \<and>
      db (exec_op demo_uuidv4 (ResolveAlert ''2024-01-03 00:00:00'' ''alert_9'') alerted_world)
        = db alerted_world"
    by (simp add: new_alert_def)
  from resolveAlert_second_time [OF p1, of "''alert_1''" demo_uuidv4 "''2024-01-04 00:00:00''"]
    ids1
  have two: "\<not> fst (resolveAlert ''alert_1'' ?w1) \<and>
      low_stock_alerts (db (exec_op demo_uuidv4 (ResolveAlert ''2024-01-04 00:00:00'' ''alert_1'')
        ?w1))
      = [(new_alert ''alert_1'' ''prod_1'' ''low_stock'' 15 20 ''2024-01-02 00:00:00'')
          \<lparr>is_resolved := True, resolved_at := Some ''2024-01-04 00:00:00''\<rparr>]"
    by (simp add: new_alert_def)
  from one two show ?thesis by blast
qed

text \<open>
  The claim as stated fails: resolving an alert that is already resolved is not a no-op.
  After the first resolve the \<^verbatim>\<open>resolved_at\<close> of the alert is the time of the first
  \<^verbatim>\<open>UPDATE\<close>, after the second resolve it is the time of the second.
\<close>

theorem resolveAlert_twice_counterexample:
  "map resolved_at (low_stock_alerts (db (exec_ops demo_uuidv4
      [ResolveAlert ''2024-01-03 00:00:00'' ''alert_1''] alerted_world)))
     = [Some ''2024-01-03 00:00:00''] \<and>
   map resolved_at (low_stock_alerts (db (exec_ops demo_uuidv4
      [ResolveAlert ''2024-01-03 00:00:00'' ''alert_1'',
       ResolveAlert ''2024-01-04 00:00:00'' ''alert_1''] alerted_world)))
     = [Some ''2024-01-04 00:00:00'']"
  by (simp add: resolveAlert_queues run_pending_def demo_defs new_alert_def)



end
